theory Spec2Isabelle
  imports Main "HOL-Library.AList"
begin

section \<open>JavaScript values, documents and errors\<close>

text \<open>
  The services exchange plain JavaScript objects with the document store and with
  the client.  A value is one of the kinds the handlers touch: \<open>undefined\<close>,
  \<open>null\<close>, a string, an \<open>ObjectID\<close> (given by its hex string), a \<open>Date\<close> (a
  number of milliseconds) or an array.  An object is an association list from
  property names to values, in property order.
\<close>

datatype jsval =
    Undefined
  | Null
  | Str string
  | ObjId string
  | DateV nat
  | Arr "jsval list"

type_synonym doc = "(string \<times> jsval) list"

text \<open>
  What a handler can raise instead of returning: a \<open>ReferenceError\<close> (reading an
  identifier that is not declared), a \<open>TypeError\<close> (calling something that is not
  a function, reading a property of \<open>undefined\<close>), an error of the store driver,
  or the error of a failed assertion of the framework.
\<close>

datatype jserror =
    ReferenceError string
  | TypeError string
  | MongoError string
  | AssertError string

text \<open>The three \<open>Boom\<close> errors the handlers build.\<close>

datatype boom =
    Unauthorized string
  | BadRequest string
  | NotFound string

record paging =
  skip :: nat
  limit :: nat

record query = paging +
  query_ownerId :: jsval
  query_sessionId :: jsval

record metadata = paging +
  count :: nat
  total_matched :: nat

text \<open>
  \<open>total_matched\<close> is the \<open>total\<close> of the metadata, \<open>query_ownerId\<close> and
  \<open>query_sessionId\<close> are \<open>request.query.ownerId\<close> and \<open>request.query.sessionId\<close>,
  and the path parameter \<open>id\<close> of the handlers below is written \<open>id'\<close>: the plain
  names are taken, by the library or by the variables of the handlers.
\<close>

text \<open>
  What a handler hands to \<open>h.response\<close>: a \<open>Boom\<close> error, a single resource, or
  a page of resources with its metadata.
\<close>

datatype returned =
    Err boom
  | Obj doc
  | Listing metadata "doc list"

text \<open>
  How a request ends in the handler: it raises, or \<open>h.response\<close> wraps the
  resource or the page into the response.
\<close>

datatype reply =
    Thrown jserror
  | Body doc
  | Page metadata "doc list"

text \<open>
  \<open>h.response(result)\<close> of the toolkit asserts that \<open>result\<close> is not an
  \<open>Error\<close> before it wraps it.  A \<open>Boom\<close> error is an \<open>Error\<close>, so every
  \<open>return h.response(Boom...)\<close> of the handlers raises the assertion's error
  instead of answering with the \<open>Boom\<close> error.
\<close>

fun h_response :: "returned \<Rightarrow> reply" where
  "h_response (Err b) = Thrown (AssertError ''Cannot wrap an error'')"
| "h_response (Obj d) = Body d"
| "h_response (Listing m ds) = Page m ds"

text \<open>\<open>request.auth.credentials\<close>, as the \<open>validate\<close> function of the strategy builds it.\<close>

record credentials =
  isMachine :: bool
  user :: string
  scopes :: "string list"

text \<open>The record the viewer service sends over the event socket.\<close>

record event =
  event :: string
  token :: string
  viewerId :: jsval
  viewer :: doc

subsection \<open>Expressions\<close>

text \<open>Property read: a missing property reads as \<open>undefined\<close>.\<close>

definition js_get :: "doc \<Rightarrow> string \<Rightarrow> jsval" where
  "js_get obj k = (case map_of obj k of None \<Rightarrow> Undefined | Some v \<Rightarrow> v)"

text \<open>Truthiness, as \<open>if\<close>, \<open>?:\<close> and \<open>&&\<close> test it.\<close>

fun truthy :: "jsval \<Rightarrow> bool" where
  "truthy Undefined = False"
| "truthy Null = False"
| "truthy (Str s) = (s \<noteq> [])"
| "truthy (ObjId h) = True"
| "truthy (DateV n) = True"
| "truthy (Arr xs) = True"

text \<open>
  \<open>===\<close>: strings, \<open>undefined\<close> and \<open>null\<close> compare by value; objects compare by
  identity, and the two operands of every comparison in the handlers come from
  different places (the payload, the stored document, the credentials), so two
  objects are never the same one.
\<close>

fun strict_eq :: "jsval \<Rightarrow> jsval \<Rightarrow> bool" where
  "strict_eq (Str a) (Str b) = (a = b)"
| "strict_eq Undefined Undefined = True"
| "strict_eq Null Null = True"
| "strict_eq _ _ = False"

text \<open>
  \<open>&&\<close>, \<open>||\<close> and \<open>!\<close> over operands that may raise.  The right operand is
  only looked at when the left one does not decide the result, so an operand that
  would raise is harmless behind a deciding left operand.
\<close>

fun js_and :: "jserror + bool \<Rightarrow> jserror + bool \<Rightarrow> jserror + bool" where
  "js_and (Inl e) r = Inl e"
| "js_and (Inr False) r = Inr False"
| "js_and (Inr True) r = r"

fun js_or :: "jserror + bool \<Rightarrow> jserror + bool \<Rightarrow> jserror + bool" where
  "js_or (Inl e) r = Inl e"
| "js_or (Inr True) r = Inr True"
| "js_or (Inr False) r = r"

fun js_not :: "jserror + bool \<Rightarrow> jserror + bool" where
  "js_not (Inl e) = Inl e"
| "js_not (Inr b) = Inr (\<not> b)"

text \<open>\<open>a !== b\<close> where reading \<open>b\<close> may raise.\<close>

fun strict_ne :: "jsval \<Rightarrow> jserror + jsval \<Rightarrow> jserror + bool" where
  "strict_ne a (Inl e) = Inl e"
| "strict_ne a (Inr b) = Inr (\<not> strict_eq a b)"

text \<open>Reading an identifier that no enclosing scope declares.\<close>

definition undeclared :: "string \<Rightarrow> jserror + jsval" where
  "undeclared name = Inl (ReferenceError (name @ '' is not defined''))"

text \<open>
  \<open>request.auth.credentials.scopes.contains("impersonate_user")\<close>.  \<open>scopes\<close> is
  \<open>token.scopes || []\<close>, a value decoded from JSON or an empty array; neither has a
  \<open>contains\<close> method (arrays have \<open>includes\<close>), so the call raises whatever the
  scopes are.
\<close>

definition scopes_contains :: "string list \<Rightarrow> string \<Rightarrow> jserror + bool" where
  "scopes_contains scs s =
     Inl (TypeError ''request.auth.credentials.scopes.contains is not a function'')"

text \<open>
  \<open>new Set(v)\<close>: \<open>undefined\<close> and \<open>null\<close> give the empty set, an array the set
  of its elements in order of first occurrence, a string the set of its
  characters; an \<open>ObjectID\<close> or a \<open>Date\<close> is not iterable.
\<close>

definition set_add :: "jsval list \<Rightarrow> jsval \<Rightarrow> jsval list" where
  "set_add acc v = (if list_ex (strict_eq v) acc then acc else acc @ [v])"

fun new_Set :: "jsval \<Rightarrow> jserror + jsval list" where
  "new_Set Undefined = Inr []"
| "new_Set Null = Inr []"
| "new_Set (Arr xs) = Inr (foldl set_add [] xs)"
| "new_Set (Str s) = Inr (foldl set_add [] (map (\<lambda>c. Str [c]) s))"
| "new_Set (ObjId h) = Inl (TypeError ''object is not iterable'')"
| "new_Set (DateV n) = Inl (TypeError ''object is not iterable'')"

text \<open>\<open>sessionSet.map(f)\<close>: a \<open>Set\<close> has no \<open>map\<close> method, so the call raises.\<close>

definition set_map :: "jsval list \<Rightarrow> (jsval \<Rightarrow> jsval) \<Rightarrow> jserror + jsval list" where
  "set_map sessionSet f = Inl (TypeError ''sessionSet.map is not a function'')"

text \<open>Property write and \<open>delete\<close>; a new property goes last.\<close>

definition js_set :: "string \<Rightarrow> jsval \<Rightarrow> doc \<Rightarrow> doc" where
  "js_set k v obj = AList.update k v obj"

definition js_delete :: "string \<Rightarrow> doc \<Rightarrow> doc" where
  "js_delete k obj = AList.delete k obj"

text \<open>\<open>{...obj, k1: v1, ..., kn: vn}\<close>: a copy of \<open>obj\<close> with the properties written in order.\<close>

definition spread :: "doc \<Rightarrow> doc \<Rightarrow> doc" where
  "spread obj props = foldl (\<lambda>acc (k, v). js_set k v acc) obj props"

text \<open>
  The two statements \<open>x.id = x._id.toString(); delete x._id;\<close> that every handler
  but the update handlers runs on a document read from the store.  Every document
  these services store has an \<open>ObjectID\<close> under \<open>_id\<close>, whose \<open>toString\<close> is its
  hex string.  On a document without \<open>_id\<close> the first statement raises; the model
  raises too on an \<open>_id\<close> of another kind, which no handler ever stores.
\<close>

definition expose_id :: "doc \<Rightarrow> jserror + doc" where
  "expose_id x =
     (case js_get x ''_id'' of
        ObjId h \<Rightarrow> Inr (js_delete ''_id'' (js_set ''id'' (Str h) x))
      | _ \<Rightarrow> Inl (TypeError ''Cannot read property toString of undefined''))"

fun expose_ids :: "doc list \<Rightarrow> jserror + doc list" where
  "expose_ids [] = Inr []"
| "expose_ids (x # xs) =
     (case expose_id x of
        Inl e \<Rightarrow> Inl e
      | Inr y \<Rightarrow> (case expose_ids xs of Inl e \<Rightarrow> Inl e | Inr ys \<Rightarrow> Inr (y # ys)))"

section \<open>The document store\<close>

text \<open>
  A collection is the list of its documents in the store's natural order.  The
  operations are those of the driver the handlers call.  A filter \<open>{k: v}\<close>
  matches a document whose field \<open>k\<close> is \<open>v\<close> or an array holding \<open>v\<close>; a
  document without the field does not match.
\<close>

definition field_matches :: "doc \<Rightarrow> string \<times> jsval \<Rightarrow> bool" where
  "field_matches d kv =
     (case map_of d (fst kv) of
        None \<Rightarrow> False
      | Some w \<Rightarrow> w = snd kv \<or> (case w of Arr xs \<Rightarrow> snd kv \<in> set xs | _ \<Rightarrow> False))"

definition matches :: "doc \<Rightarrow> doc \<Rightarrow> bool" where
  "matches search d = list_all (field_matches d) search"

definition findOne :: "doc \<Rightarrow> doc list \<Rightarrow> doc option" where
  "findOne search coll = List.find (matches search) coll"

text \<open>The serializer of the driver writes a property that is \<open>undefined\<close> as \<open>null\<close>.\<close>

definition bson :: "doc \<Rightarrow> doc" where
  "bson d = map (\<lambda>(k, v). (k, if v = Undefined then Null else v)) d"

text \<open>\<open>insertOne\<close>: the unique index on \<open>_id\<close> refuses a second document with the same id.\<close>

definition insertOne :: "doc \<Rightarrow> doc list \<Rightarrow> jserror + doc list" where
  "insertOne d coll =
     (if list_ex (\<lambda>x. js_get x ''_id'' = js_get d ''_id'') coll
      then Inl (MongoError ''E11000 duplicate key error'')
      else Inr (coll @ [bson d]))"

text \<open>\<open>updateOne(search, {$set: props})\<close> writes the properties into the first match.\<close>

fun updateOne :: "doc \<Rightarrow> doc \<Rightarrow> doc list \<Rightarrow> doc list" where
  "updateOne search props [] = []"
| "updateOne search props (d # coll) =
     (if matches search d then spread d (bson props) # coll
      else d # updateOne search props coll)"

text \<open>\<open>deleteOne(search)\<close> removes the first match.\<close>

fun deleteOne :: "doc \<Rightarrow> doc list \<Rightarrow> doc list" where
  "deleteOne search [] = []"
| "deleteOne search (d # coll) =
     (if matches search d then coll else d # deleteOne search coll)"

text \<open>
  A cursor \<open>find(search).skip(s).limit(l)\<close>.  \<open>toArray\<close> and
  \<open>count({applySkipLimit: true})\<close> see the matches after skip and limit,
  \<open>count()\<close> sees all of them.  A limit of 0 means no limit.
\<close>

definition cursor_all :: "doc \<Rightarrow> doc list \<Rightarrow> doc list" where
  "cursor_all search coll = filter (matches search) coll"

definition cursor_window :: "doc \<Rightarrow> nat \<Rightarrow> nat \<Rightarrow> doc list \<Rightarrow> doc list" where
  "cursor_window search s l coll =
     (let rest = drop s (cursor_all search coll)
      in if l = 0 then rest else take l rest)"

text \<open>
  \<open>new ObjectID(s)\<close> on a string of 24 hex digits, the only kind of string that
  validation lets through as a path parameter \<open>id\<close> or as a \<open>sessionId\<close>.  The
  digits are decoded into the twelve bytes of the id whatever their case, and
  \<open>toString\<close> prints the bytes in lower case: an \<open>ObjectID\<close> is given here by
  that lower-case string, so that two spellings of the same id are the same
  \<open>ObjectID\<close>.
\<close>

definition hex_lower :: "char \<Rightarrow> char" where
  "hex_lower c =
     (case map_of [(CHR ''A'', CHR ''a''), (CHR ''B'', CHR ''b''), (CHR ''C'', CHR ''c''),
                   (CHR ''D'', CHR ''d''), (CHR ''E'', CHR ''e''), (CHR ''F'', CHR ''f'')] c of
        Some l \<Rightarrow> l
      | None \<Rightarrow> c)"

definition new_ObjectID :: "jsval \<Rightarrow> jsval" where
  "new_ObjectID v = (case v of Str h \<Rightarrow> ObjId (map hex_lower h) | _ \<Rightarrow> v)"

text \<open>
  The search object of both list handlers:
  \<^verbatim>\<open>if (ownerId) { search.ownerId = ownerId }
if (sessionId) { search.sessions = new ObjectID(sessionId); }\<close>
\<close>

definition list_search :: "query \<Rightarrow> doc" where
  "list_search q =
     (if truthy (query_ownerId q) then [(''ownerId'', query_ownerId q)] else []) @
     (if truthy (query_sessionId q)
      then [(''sessions'', new_ObjectID (query_sessionId q))] else [])"

definition list_handler :: "query \<Rightarrow> doc list \<Rightarrow> reply" where
  "list_handler q coll =
     (let search = list_search q;
          found = cursor_window search (skip q) (limit q) coll;
          n = length found;
          t = length (cursor_all search coll)
      in case expose_ids found of
           Inl e \<Rightarrow> Thrown e
         | Inr results \<Rightarrow>
             h_response
               (Listing \<lparr>skip = skip q, limit = limit q, count = n, total_matched = t\<rparr>
                  results))"

section \<open>The device service\<close>

text \<open>
  Each handler takes what the request carries (credentials, path parameter,
  validated payload or query), what the environment supplies (the fresh
  \<open>ObjectID\<close> of \<open>new ObjectID()\<close>, given by the string that its \<open>toString\<close>
  prints, and the clock readings of \<open>new Date()\<close>) and the \<open>devices\<close>
  collection, and returns its reply with the collection afterwards.
\<close>

definition get_devices :: "query \<Rightarrow> doc list \<Rightarrow> reply" where
  "get_devices q coll = list_handler q coll"

text \<open>
  \<open>POST /devices\<close>.  The handler never declares \<open>creatorId\<close>, which it reads in
  the conditional of line 206 (when the payload has no owner) and in the first
  check (when it has one).
\<close>

definition post_devices ::
  "credentials \<Rightarrow> doc \<Rightarrow> string \<Rightarrow> nat \<Rightarrow> nat \<Rightarrow> doc list \<Rightarrow> reply \<times> doc list" where
  "post_devices cr payload id' createdDate updatedDate coll =
     (case (if truthy (js_get payload ''ownerId'') then Inr (js_get payload ''ownerId'')
            else undeclared ''creatorId'') of
        Inl e \<Rightarrow> (Thrown e, coll)
      | Inr ownerId \<Rightarrow>
          (case js_and
                  (js_and (Inr (truthy (js_get payload ''ownerId'')))
                          (strict_ne (js_get payload ''ownerId'') (undeclared ''creatorId'')))
                  (js_or (Inr (\<not> isMachine cr))
                         (js_not (scopes_contains (scopes cr) ''impersonate_user''))) of
             Inl e \<Rightarrow> (Thrown e, coll)
           | Inr True \<Rightarrow>
               (h_response (Err (Unauthorized
                  ''You cannot create a device for another user without the impersonate_user scope.'')),
                coll)
           | Inr False \<Rightarrow>
               if truthy (js_get payload ''ownerId'')
                  \<and> strict_eq (js_get payload ''ownerId'') (Str (user cr))
                  \<and> isMachine cr
               then (h_response (Err (BadRequest
                       ''A machine cannot set themselves as the owner of this resource.'')),
                     coll)
               else
                 let device =
                       [(''_id'', ObjId id'),
                        (''createdDate'', DateV createdDate),
                        (''updatedDate'', DateV updatedDate),
                        (''creatorId'', Str (user cr)),
                        (''updatorId'', Str (user cr)),
                        (''ownerId'', ownerId),
                        (''name'', js_get payload ''name''),
                        (''description'', js_get payload ''description''),
                        (''sessions'', js_get payload ''sessions'')]
                 in case insertOne device coll of
                      Inl e \<Rightarrow> (Thrown e, coll)
                    | Inr coll' \<Rightarrow>
                        (h_response (Obj (js_delete ''_id'' (js_set ''id'' (Str id') device))), coll')))"

definition get_device :: "string \<Rightarrow> doc list \<Rightarrow> reply" where
  "get_device id' coll =
     (case findOne [(''_id'', new_ObjectID (Str id'))] coll of
        Some device \<Rightarrow>
          (case expose_id device of Inl e \<Rightarrow> Thrown e | Inr d \<Rightarrow> h_response (Obj d))
      | None \<Rightarrow> h_response (Err (NotFound (''Device with id '' @ id' @ '' not found.''))))"

text \<open>
  \<open>PUT /devices/{id}\<close>.  Lines 340 and 341 run before the two checks:
  \<^verbatim>\<open>const sessionSet = new Set(payload.sessions)
const sessionIds = sessionSet.map(session => {new ObjectID(session)})\<close>
  The arrow function has a block body without \<open>return\<close>, so it would give
  \<open>undefined\<close> for every element.
\<close>

definition put_device ::
  "credentials \<Rightarrow> string \<Rightarrow> doc \<Rightarrow> nat \<Rightarrow> doc list \<Rightarrow> reply \<times> doc list" where
  "put_device cr id' payload updatedDate coll =
     (let search = [(''_id'', new_ObjectID (Str id'))]
      in case findOne search coll of
           None \<Rightarrow> (h_response (Err (NotFound (''Device with id '' @ id' @ '' not found.''))), coll)
         | Some device \<Rightarrow>
             let updatorId = Str (user cr);
                 ownerId = (if truthy (js_get payload ''ownerId'') then js_get payload ''ownerId''
                            else js_get device ''ownerId'')
             in case new_Set (js_get payload ''sessions'') of
                  Inl e \<Rightarrow> (Thrown e, coll)
                | Inr sessionSet \<Rightarrow>
                    (case set_map sessionSet (\<lambda>session. Undefined) of
                       Inl e \<Rightarrow> (Thrown e, coll)
                     | Inr sessionIds \<Rightarrow>
                         (case js_and
                                 (js_and (Inr (truthy (js_get payload ''ownerId'')))
                                         (strict_ne (js_get payload ''ownerId'')
                                                    (Inr (js_get device ''ownerId''))))
                                 (js_or (Inr (\<not> isMachine cr))
                                        (js_not (scopes_contains (scopes cr) ''impersonate_user''))) of
                            Inl e \<Rightarrow> (Thrown e, coll)
                          | Inr True \<Rightarrow>
                              (h_response (Err (Unauthorized
                                 ''You cannot change a session owner to another user without the impersonate_user scope.'')),
                               coll)
                          | Inr False \<Rightarrow>
                              if truthy (js_get payload ''ownerId'')
                                 \<and> strict_eq (js_get payload ''ownerId'') (Str (user cr))
                                 \<and> isMachine cr
                              then (h_response (Err (BadRequest
                                      ''A machine cannot set themselves as the owner of this resource.'')),
                                    coll)
                              else
                                (h_response (Obj (spread device
                                         [(''updatedDate'', DateV updatedDate),
                                          (''updatorId'', updatorId),
                                          (''ownerId'', ownerId),
                                          (''name'', js_get payload ''name''),
                                          (''description'', js_get payload ''description''),
                                          (''sessions'', Arr sessionSet)])),
                                 updateOne search
                                   [(''updatedDate'', DateV updatedDate),
                                    (''updatorId'', updatorId),
                                    (''ownerId'', ownerId),
                                    (''name'', js_get payload ''name''),
                                    (''description'', js_get payload ''description''),
                                    (''sessions'', Arr sessionIds)]
                                   coll))))"

text \<open>
  \<open>DELETE /devices/{id}\<close>.  The handler reads the device and returns it; it has
  no call to \<open>deleteOne\<close>.
\<close>

definition delete_device :: "string \<Rightarrow> doc list \<Rightarrow> reply \<times> doc list" where
  "delete_device id' coll =
     (case findOne [(''_id'', new_ObjectID (Str id'))] coll of
        Some device \<Rightarrow>
          (case expose_id device of Inl e \<Rightarrow> (Thrown e, coll) | Inr d \<Rightarrow> (h_response (Obj d), coll))
      | None \<Rightarrow> (h_response (Err (NotFound (''Device with id '' @ id' @ '' not found.''))), coll))"

section \<open>The viewer service\<close>

text \<open>
  The viewer service with the event plugin.  Its handlers take also the token
  held by the plugin (\<open>request.eventApi.token\<close>) and return the events they
  emit on the socket, in order.  The copy of the viewer service that follows the
  device service in \<open>server.js\<close> has the same handlers without the plugin: the
  same replies and the same collection afterwards, and no events.
\<close>

definition get_viewers :: "query \<Rightarrow> doc list \<Rightarrow> reply" where
  "get_viewers q coll = list_handler q coll"

definition post_viewers ::
  "string \<Rightarrow> credentials \<Rightarrow> doc \<Rightarrow> string \<Rightarrow> nat \<Rightarrow> nat \<Rightarrow> doc list
     \<Rightarrow> reply \<times> doc list \<times> event list" where
  "post_viewers tok cr payload id' createdDate updatedDate coll =
     (let creatorId = Str (user cr);
          ownerId = (if truthy (js_get payload ''ownerId'') then js_get payload ''ownerId''
                     else creatorId)
      in case js_and
                (js_and (Inr (truthy (js_get payload ''ownerId'')))
                        (strict_ne (js_get payload ''ownerId'') (Inr creatorId)))
                (js_or (Inr (\<not> isMachine cr))
                       (js_not (scopes_contains (scopes cr) ''impersonate_user''))) of
           Inl e \<Rightarrow> (Thrown e, coll, [])
         | Inr True \<Rightarrow>
             (h_response (Err (Unauthorized
                ''You cannot create a viewer for another user without the impersonate_user scope.'')),
              coll, [])
         | Inr False \<Rightarrow>
             if truthy (js_get payload ''ownerId'')
                \<and> strict_eq (js_get payload ''ownerId'') (Str (user cr))
                \<and> isMachine cr
             then (h_response (Err (BadRequest
                     ''A machine cannot set themselves as the owner of this resource.'')),
                   coll, [])
             else
               let viewer0 =
                     [(''_id'', ObjId id'),
                      (''createdDate'', DateV createdDate),
                      (''updatedDate'', DateV updatedDate),
                      (''creatorId'', Str (user cr)),
                      (''updatorId'', Str (user cr)),
                      (''ownerId'', ownerId),
                      (''sessionId'', js_get payload ''sessionId'')]
               in case insertOne viewer0 coll of
                    Inl e \<Rightarrow> (Thrown e, coll, [])
                  | Inr coll' \<Rightarrow>
                      let viewer1 = js_delete ''_id'' (js_set ''id'' (Str id') viewer0)
                      in (h_response (Obj viewer1), coll',
                          [\<lparr>event = ''viewer created'', token = tok,
                            viewerId = js_get viewer1 ''id'', viewer = viewer1\<rparr>]))"

definition get_viewer :: "string \<Rightarrow> doc list \<Rightarrow> reply" where
  "get_viewer id' coll =
     (case findOne [(''_id'', new_ObjectID (Str id'))] coll of
        Some viewer0 \<Rightarrow>
          (case expose_id viewer0 of Inl e \<Rightarrow> Thrown e | Inr viewer1 \<Rightarrow> h_response (Obj viewer1))
      | None \<Rightarrow> h_response (Err (NotFound (''Viewer with id '' @ id' @ '' not found.''))))"

text \<open>
  \<open>PUT /viewers/{id}\<close>.  \<open>updatedViewer\<close> is the document as read from the
  store with the four written properties; the handler does not run the two
  \<open>id\<close> statements on it, and reads \<open>updatedViewer.id\<close> for the event.
\<close>

definition put_viewer ::
  "string \<Rightarrow> credentials \<Rightarrow> string \<Rightarrow> doc \<Rightarrow> nat \<Rightarrow> doc list
     \<Rightarrow> reply \<times> doc list \<times> event list" where
  "put_viewer tok cr id' payload updatedDate coll =
     (let search = [(''_id'', new_ObjectID (Str id'))]
      in case findOne search coll of
           None \<Rightarrow> (h_response (Err (NotFound (''Viewer with id '' @ id' @ '' not found.''))), coll, [])
         | Some viewer0 \<Rightarrow>
             let updatorId = Str (user cr);
                 ownerId = (if truthy (js_get payload ''ownerId'') then js_get payload ''ownerId''
                            else js_get viewer0 ''ownerId'')
             in case js_and
                       (js_and (Inr (truthy (js_get payload ''ownerId'')))
                               (strict_ne (js_get payload ''ownerId'')
                                          (Inr (js_get viewer0 ''ownerId''))))
                       (js_or (Inr (\<not> isMachine cr))
                              (js_not (scopes_contains (scopes cr) ''impersonate_user''))) of
                  Inl e \<Rightarrow> (Thrown e, coll, [])
                | Inr True \<Rightarrow>
                    (h_response (Err (Unauthorized
                       ''You cannot change a viewer owner to another user without the impersonate_user scope.'')),
                     coll, [])
                | Inr False \<Rightarrow>
                    if truthy (js_get payload ''ownerId'')
                       \<and> strict_eq (js_get payload ''ownerId'') (Str (user cr))
                       \<and> isMachine cr
                    then (h_response (Err (BadRequest
                            ''A machine cannot set themselves as the owner of this resource.'')),
                          coll, [])
                    else
                      let written =
                            [(''updatedDate'', DateV updatedDate),
                             (''updatorId'', updatorId),
                             (''ownerId'', ownerId),
                             (''sessionId'', js_get payload ''sessionId'')];
                          coll' = updateOne search written coll;
                          updatedViewer = spread viewer0 written
                      in (h_response (Obj updatedViewer), coll',
                          [\<lparr>event = ''viewer updated'', token = tok,
                            viewerId = js_get updatedViewer ''id'', viewer = updatedViewer\<rparr>]))"

definition delete_viewer ::
  "string \<Rightarrow> string \<Rightarrow> doc list \<Rightarrow> reply \<times> doc list \<times> event list" where
  "delete_viewer tok id' coll =
     (let search = [(''_id'', new_ObjectID (Str id'))]
      in case findOne search coll of
           Some viewer0 \<Rightarrow>
             (case expose_id viewer0 of
                Inl e \<Rightarrow> (Thrown e, coll, [])
              | Inr viewer1 \<Rightarrow>
                  (h_response (Obj viewer1), deleteOne search coll,
                   [\<lparr>event = ''viewer deleted'', token = tok,
                     viewerId = js_get viewer1 ''id'', viewer = viewer1\<rparr>]))
         | None \<Rightarrow> (h_response (Err (NotFound (''Viewer with id '' @ id' @ '' not found.''))), coll, []))"

section \<open>Request validation\<close>

text \<open>
  The schemas of the routes, which the framework checks before it calls a
  handler (and which fill in the default device name): \<open>Joi.string()\<close> lets an
  absent value or a non-empty string through, \<open>Joi.objectId()\<close> an absent value
  or a string of 24 hex digits.
\<close>

definition is_hex :: "char \<Rightarrow> bool" where
  "is_hex c = (c \<in> set ''0123456789abcdefABCDEF'')"

definition is_objectId :: "string \<Rightarrow> bool" where
  "is_objectId s = (length s = 24 \<and> list_all is_hex s)"

fun joi_string :: "jsval \<Rightarrow> bool" where
  "joi_string Undefined = True"
| "joi_string (Str s) = (s \<noteq> [])"
| "joi_string _ = False"

fun joi_objectId :: "jsval \<Rightarrow> bool" where
  "joi_objectId Undefined = True"
| "joi_objectId (Str s) = is_objectId s"
| "joi_objectId _ = False"

fun joi_objectId_array :: "jsval \<Rightarrow> bool" where
  "joi_objectId_array Undefined = True"
| "joi_objectId_array (Arr xs) = list_all (\<lambda>x. x \<noteq> Undefined \<and> joi_objectId x) xs"
| "joi_objectId_array _ = False"

fun joi_name :: "jsval \<Rightarrow> bool" where
  "joi_name (Str s) = (6 \<le> length s \<and> length s \<le> 60)"
| "joi_name _ = False"

definition device_payload_ok :: "doc \<Rightarrow> bool" where
  "device_payload_ok payload =
     (distinct (map fst payload)
      \<and> list_all (\<lambda>k. k \<in> set [''ownerId'', ''name'', ''description'', ''sessions''])
                  (map fst payload)
      \<and> joi_string (js_get payload ''ownerId'')
      \<and> joi_name (js_get payload ''name'')
      \<and> joi_string (js_get payload ''description'')
      \<and> joi_objectId_array (js_get payload ''sessions''))"

definition viewer_payload_ok :: "doc \<Rightarrow> bool" where
  "viewer_payload_ok payload =
     (distinct (map fst payload)
      \<and> list_all (\<lambda>k. k \<in> set [''ownerId'', ''sessionId'']) (map fst payload)
      \<and> joi_string (js_get payload ''ownerId'')
      \<and> joi_objectId (js_get payload ''sessionId''))"

section \<open>Stored documents\<close>

text \<open>
  What the store guarantees of a collection and what the viewer handlers
  maintain: every document has an \<open>ObjectID\<close> under \<open>_id\<close>, no two documents
  share it, and a viewer document has exactly the seven properties the create
  handler writes.
\<close>

definition has_objectid :: "doc \<Rightarrow> bool" where
  "has_objectid d = (case js_get d ''_id'' of ObjId h \<Rightarrow> True | _ \<Rightarrow> False)"

definition viewer_keys :: "string list" where
  "viewer_keys =
     [''_id'', ''createdDate'', ''updatedDate'', ''creatorId'', ''updatorId'',
      ''ownerId'', ''sessionId'']"

definition viewer_doc :: "doc \<Rightarrow> bool" where
  "viewer_doc d = (map fst d = viewer_keys \<and> has_objectid d)"

definition viewers_ok :: "doc list \<Rightarrow> bool" where
  "viewers_ok coll =
     (list_all viewer_doc coll \<and> distinct (map (\<lambda>d. js_get d ''_id'') coll))"

text \<open>
  The states of the \<open>viewers\<close> collection that the service can bring about,
  starting from the empty collection, by any sequence of requests.
\<close>

inductive viewers_reachable :: "doc list \<Rightarrow> bool" where
  initially: "viewers_reachable []"
| after_post:
    "viewers_reachable coll \<Longrightarrow>
     post_viewers tok cr payload id' createdDate updatedDate coll = (r, coll', evs) \<Longrightarrow>
     viewers_reachable coll'"
| after_put:
    "viewers_reachable coll \<Longrightarrow>
     put_viewer tok cr id' payload updatedDate coll = (r, coll', evs) \<Longrightarrow>
     viewers_reachable coll'"
| after_delete:
    "viewers_reachable coll \<Longrightarrow>
     delete_viewer tok id' coll = (r, coll', evs) \<Longrightarrow>
     viewers_reachable coll'"

section \<open>Example callers and documents\<close>

definition u1 :: credentials where
  "u1 = \<lparr>isMachine = False, user = ''u1'', scopes = []\<rparr>"

definition m1 :: credentials where
  "m1 = \<lparr>isMachine = True, user = ''m1'', scopes = []\<rparr>"

definition viewer_of_u1 :: doc where
  "viewer_of_u1 =
     [(''_id'', ObjId ''5f0000000000000000000001''),
      (''createdDate'', DateV 10),
      (''updatedDate'', DateV 10),
      (''creatorId'', Str ''u1''),
      (''updatorId'', Str ''u1''),
      (''ownerId'', Str ''u1''),
      (''sessionId'', Str ''507f1f77bcf86cd799439011'')]"

definition device_of_u1 :: doc where
  "device_of_u1 =
     [(''_id'', ObjId ''5f00000000000000000000d1''),
      (''createdDate'', DateV 10),
      (''updatedDate'', DateV 10),
      (''creatorId'', Str ''u1''),
      (''updatorId'', Str ''u1''),
      (''ownerId'', Str ''u1''),
      (''name'', Str ''Unnamed Device''),
      (''description'', Null),
      (''sessions'', Arr [Str ''507f1f77bcf86cd799439011''])]"

text \<open>The viewer above after \<open>u1\<close> has set its session at time 20, as stored.\<close>

definition updated_viewer_of_u1 :: doc where
  "updated_viewer_of_u1 =
     [(''_id'', ObjId ''5f0000000000000000000001''),
      (''createdDate'', DateV 10),
      (''updatedDate'', DateV 20),
      (''creatorId'', Str ''u1''),
      (''updatorId'', Str ''u1''),
      (''ownerId'', Str ''u1''),
      (''sessionId'', Str ''507f1f77bcf86cd799439012'')]"

text \<open>The same viewer and device as the read and delete handlers return them.\<close>

definition exposed_viewer_of_u1 :: doc where
  "exposed_viewer_of_u1 =
     [(''createdDate'', DateV 10),
      (''updatedDate'', DateV 10),
      (''creatorId'', Str ''u1''),
      (''updatorId'', Str ''u1''),
      (''ownerId'', Str ''u1''),
      (''sessionId'', Str ''507f1f77bcf86cd799439011''),
      (''id'', Str ''5f0000000000000000000001'')]"

definition exposed_device_of_u1 :: doc where
  "exposed_device_of_u1 =
     [(''createdDate'', DateV 10),
      (''updatedDate'', DateV 10),
      (''creatorId'', Str ''u1''),
      (''updatorId'', Str ''u1''),
      (''ownerId'', Str ''u1''),
      (''name'', Str ''Unnamed Device''),
      (''description'', Null),
      (''sessions'', Arr [Str ''507f1f77bcf86cd799439011'']),
      (''id'', Str ''5f00000000000000000000d1'')]"

text \<open>A second viewer, as the create handler returns it to \<open>u1\<close> at time 30.\<close>

definition created_viewer_of_u1 :: doc where
  "created_viewer_of_u1 =
     [(''createdDate'', DateV 30),
      (''updatedDate'', DateV 30),
      (''creatorId'', Str ''u1''),
      (''updatorId'', Str ''u1''),
      (''ownerId'', Str ''u1''),
      (''sessionId'', Str ''507f1f77bcf86cd799439012''),
      (''id'', Str ''5f0000000000000000000002'')]"

text \<open>A viewer that the machine \<open>m1\<close> created without naming an owner.\<close>

definition viewer_of_m1 :: doc where
  "viewer_of_m1 =
     [(''_id'', ObjId ''5f0000000000000000000003''),
      (''createdDate'', DateV 10),
      (''updatedDate'', DateV 10),
      (''creatorId'', Str ''m1''),
      (''updatorId'', Str ''m1''),
      (''ownerId'', Str ''m1''),
      (''sessionId'', Str ''507f1f77bcf86cd799439011'')]"

text \<open>Thirty viewers of \<open>u1\<close>, with the ids \<open>5f...00\<close> to \<open>5f...1d\<close>.\<close>

definition hex_digit :: "nat \<Rightarrow> char" where
  "hex_digit n = ''0123456789abcdef'' ! (n mod 16)"

definition numbered_viewer :: "nat \<Rightarrow> doc" where
  "numbered_viewer n =
     [(''_id'', ObjId (''5f00000000000000000000'' @ [hex_digit (n div 16), hex_digit n])),
      (''createdDate'', DateV n),
      (''updatedDate'', DateV n),
      (''creatorId'', Str ''u1''),
      (''updatorId'', Str ''u1''),
      (''ownerId'', Str ''u1''),
      (''sessionId'', Str ''507f1f77bcf86cd799439011'')]"

definition thirty_viewers :: "doc list" where
  "thirty_viewers = map numbered_viewer [0..<30]"

section \<open>The fields no update may touch\<close>

text \<open>The stored \<open>_id\<close>, \<open>createdDate\<close> and \<open>creatorId\<close> of a document.\<close>

definition immutable_fields :: "doc \<Rightarrow> jsval \<times> jsval \<times> jsval" where
  "immutable_fields d = (js_get d ''_id'', js_get d ''createdDate'', js_get d ''creatorId'')"

section \<open>Unfolding on concrete requests\<close>

lemma new_ObjectID_Str: "new_ObjectID (Str s) = ObjId (map hex_lower s)"
  by (simp add: new_ObjectID_def)

lemma decoded_viewer_id:
  "new_ObjectID (Str ''5f0000000000000000000001'') = ObjId ''5f0000000000000000000001''"
  "new_ObjectID (Str ''5F0000000000000000000001'') = ObjId ''5f0000000000000000000001''"
  "new_ObjectID (Str ''5f0000000000000000000003'') = ObjId ''5f0000000000000000000003''"
  by (simp_all add: new_ObjectID_def hex_lower_def)

lemma decoded_device_id:
  "new_ObjectID (Str ''5f00000000000000000000d1'') = ObjId ''5f00000000000000000000d1''"
  by (simp add: new_ObjectID_def hex_lower_def)

lemma decoded_session_id:
  "new_ObjectID (Str ''507f1f77bcf86cd799439011'') = ObjId ''507f1f77bcf86cd799439011''"
  by (simp add: new_ObjectID_def hex_lower_def)

lemmas eval_defs =
  findOne_def matches_def field_matches_def js_get_def scopes_contains_def undeclared_def
  spread_def js_set_def js_delete_def bson_def insertOne_def expose_id_def Let_def
  u1_def m1_def viewer_of_u1_def device_of_u1_def viewer_of_m1_def
  updated_viewer_of_u1_def exposed_viewer_of_u1_def exposed_device_of_u1_def
  created_viewer_of_u1_def decoded_viewer_id decoded_device_id decoded_session_id

section \<open>The device update handler\<close>

lemma new_Set_sessions: "joi_objectId_array v \<Longrightarrow> \<exists>s. new_Set v = Inr s"
  by (cases v) auto

text \<open>
  C5.  On an existing device and a valid payload, \<open>PUT /devices/{id}\<close> raises
  the \<open>TypeError\<close> of \<open>sessionSet.map\<close> and leaves the collection as it was.
  Whatever the request, the handler never answers with a device and never writes
  to the collection.
\<close>

theorem put_device_always_raises:
  "(findOne [(''_id'', new_ObjectID (Str id'))] coll \<noteq> None \<and> device_payload_ok payload \<longrightarrow>
      put_device cr id' payload updatedDate coll =
        (Thrown (TypeError ''sessionSet.map is not a function''), coll))
   \<and> (\<forall>b. fst (put_device cr id' payload updatedDate coll) \<noteq> Body b)
   \<and> snd (put_device cr id' payload updatedDate coll) = coll"
proof (intro conjI impI allI)
  assume a: "findOne [(''_id'', new_ObjectID (Str id'))] coll \<noteq> None \<and> device_payload_ok payload"
  then obtain s where "new_Set (js_get payload ''sessions'') = Inr s"
    using new_Set_sessions by (auto simp: device_payload_ok_def)
  with a show "put_device cr id' payload updatedDate coll =
        (Thrown (TypeError ''sessionSet.map is not a function''), coll)"
    by (auto simp: put_device_def set_map_def Let_def)
next
  fix b
  show "fst (put_device cr id' payload updatedDate coll) \<noteq> Body b"
    by (simp add: put_device_def set_map_def Let_def split: option.splits sum.splits)
next
  show "snd (put_device cr id' payload updatedDate coll) = coll"
    by (simp add: put_device_def set_map_def Let_def split: option.splits sum.splits)
qed

theorem put_device_always_raises_witness:
  "findOne [(''_id'', new_ObjectID (Str ''5f00000000000000000000d1''))] [device_of_u1] \<noteq> None
   \<and> device_payload_ok
        [(''name'', Str ''Kitchen camera''),
         (''sessions'', Arr [Str ''507f1f77bcf86cd799439011''])]
   \<and> put_device u1 ''5f00000000000000000000d1''
        [(''name'', Str ''Kitchen camera''),
         (''sessions'', Arr [Str ''507f1f77bcf86cd799439011''])]
        20 [device_of_u1] =
      (Thrown (TypeError ''sessionSet.map is not a function''), [device_of_u1])"
  using put_device_always_raises [of "''5f00000000000000000000d1''" "[device_of_u1]"
      "[(''name'', Str ''Kitchen camera''),
        (''sessions'', Arr [Str ''507f1f77bcf86cd799439011''])]" u1 20]
  by (simp add: device_payload_ok_def js_get_def is_objectId_def is_hex_def findOne_def
        matches_def field_matches_def device_of_u1_def decoded_device_id)

section \<open>Objects and store operations\<close>

lemma map_of_spread_other:
  "k \<notin> fst ` set props \<Longrightarrow> map_of (spread d props) k = map_of d k"
  unfolding spread_def
  by (induction props arbitrary: d) (auto simp: js_set_def update_conv')

lemma js_get_spread_other:
  "k \<notin> fst ` set props \<Longrightarrow> js_get (spread d props) k = js_get d k"
  by (simp add: js_get_def map_of_spread_other)

lemma keys_spread:
  "fst ` set props \<subseteq> fst ` set d \<Longrightarrow> map fst (spread d props) = map fst d"
  unfolding spread_def
proof (induction props arbitrary: d)
  case Nil
  then show ?case by simp
next
  case (Cons p props)
  obtain k v where p: "p = (k, v)" by (cases p)
  from Cons.prems p have k: "k \<in> fst ` set d" by auto
  then have keys: "map fst (js_set k v d) = map fst d"
    by (simp add: js_set_def update_keys)
  then have "fst ` set (js_set k v d) = fst ` set d"
    by (metis list.set_map)
  with Cons.prems have "fst ` set props \<subseteq> fst ` set (js_set k v d)" by auto
  from Cons.IH[OF this] keys p show ?case by simp
qed

lemma keys_bson [simp]: "map fst (bson d) = map fst d"
  by (induction d) (auto simp: bson_def)

lemma key_set_bson [simp]: "fst ` set (bson d) = fst ` set d"
  by (metis keys_bson list.set_map)

lemma matches_cong_keys:
  "(\<And>k. k \<in> fst ` set s \<Longrightarrow> map_of d' k = map_of d k) \<Longrightarrow> matches s d' = matches s d"
  by (auto simp: matches_def list_all_iff field_matches_def)

lemma findOne_updateOne:
  assumes "findOne s coll = Some d" and "fst ` set props \<inter> fst ` set s = {}"
  shows "findOne s (updateOne s props coll) = Some (spread d (bson props))"
  using assms
proof (induction coll)
  case Nil
  then show ?case by (simp add: findOne_def)
next
  case (Cons x coll)
  show ?case
  proof (cases "matches s x")
    case True
    with Cons.prems have dx: "d = x" by (simp add: findOne_def)
    have "matches s (spread x (bson props)) = matches s x"
    proof (rule matches_cong_keys)
      fix k assume "k \<in> fst ` set s"
      with Cons.prems(2) have "k \<notin> fst ` set (bson props)" by auto
      then show "map_of (spread x (bson props)) k = map_of x k"
        by (rule map_of_spread_other)
    qed
    with True dx show ?thesis by (simp add: findOne_def)
  next
    case False
    with Cons show ?thesis by (simp add: findOne_def)
  qed
qed

lemma updateOne_keeps_field:
  "k \<notin> fst ` set props \<Longrightarrow>
   map (\<lambda>d. js_get d k) (updateOne s props coll) = map (\<lambda>d. js_get d k) coll"
  by (induction coll) (auto simp: js_get_spread_other)

lemma updateOne_immutable:
  "''_id'' \<notin> fst ` set props \<Longrightarrow> ''createdDate'' \<notin> fst ` set props \<Longrightarrow>
   ''creatorId'' \<notin> fst ` set props \<Longrightarrow>
   map immutable_fields (updateOne s props coll) = map immutable_fields coll"
  by (induction coll) (auto simp: immutable_fields_def js_get_spread_other)

lemma put_viewer_accepted:
  assumes "put_viewer tok cr id' payload updatedDate coll = (Body b, coll', evs)"
  obtains d ownerId where
    "findOne [(''_id'', new_ObjectID (Str id'))] coll = Some d"
    "coll' = updateOne [(''_id'', new_ObjectID (Str id'))]
               [(''updatedDate'', DateV updatedDate), (''updatorId'', Str (user cr)),
                (''ownerId'', ownerId), (''sessionId'', js_get payload ''sessionId'')] coll"
    "b = spread d
               [(''updatedDate'', DateV updatedDate), (''updatorId'', Str (user cr)),
                (''ownerId'', ownerId), (''sessionId'', js_get payload ''sessionId'')]"
    "evs = [\<lparr>event = ''viewer updated'', token = tok, viewerId = js_get b ''id'', viewer = b\<rparr>]"
  using assms
  by (auto simp: put_viewer_def Let_def split: option.splits sum.splits bool.splits if_splits)


text \<open>
  C6.  When \<open>PUT /viewers/{id}\<close> accepts an update, the document stored under
  the id keeps its \<open>_id\<close>, \<open>createdDate\<close> and \<open>creatorId\<close>, and every property
  other than \<open>updatedDate\<close>, \<open>updatorId\<close>, \<open>ownerId\<close> and \<open>sessionId\<close>; no
  document of the collection changes in the three fields.  \<open>PUT /devices/{id}\<close>
  changes them in no document either, whatever it replies.
\<close>

theorem update_keeps_immutable_fields:
  "(put_viewer tok cr id' payload updatedDate coll = (Body b, coll', evs) \<longrightarrow>
      (\<exists>d d'. findOne [(''_id'', new_ObjectID (Str id'))] coll = Some d
             \<and> findOne [(''_id'', new_ObjectID (Str id'))] coll' = Some d'
             \<and> immutable_fields d' = immutable_fields d
             \<and> (\<forall>k. k \<notin> set [''updatedDate'', ''updatorId'', ''ownerId'', ''sessionId'']
                    \<longrightarrow> map_of d' k = map_of d k))
      \<and> map immutable_fields coll' = map immutable_fields coll)
   \<and> map immutable_fields (snd (put_device cr id' payload updatedDate coll))
       = map immutable_fields coll"
proof (intro conjI impI)
  assume acc: "put_viewer tok cr id' payload updatedDate coll = (Body b, coll', evs)"
  then obtain d ownerId where
    d: "findOne [(''_id'', new_ObjectID (Str id'))] coll = Some d" and
    coll': "coll' = updateOne [(''_id'', new_ObjectID (Str id'))]
               [(''updatedDate'', DateV updatedDate), (''updatorId'', Str (user cr)),
                (''ownerId'', ownerId), (''sessionId'', js_get payload ''sessionId'')] coll"
    by (rule put_viewer_accepted)
  let ?props = "[(''updatedDate'', DateV updatedDate), (''updatorId'', Str (user cr)),
                (''ownerId'', ownerId), (''sessionId'', js_get payload ''sessionId'')]"
  have d': "findOne [(''_id'', new_ObjectID (Str id'))] coll' = Some (spread d (bson ?props))"
    unfolding coll' by (rule findOne_updateOne[OF d]) simp
  have same: "map_of (spread d (bson ?props)) k = map_of d k"
    if "k \<notin> set [''updatedDate'', ''updatorId'', ''ownerId'', ''sessionId'']" for k
    using that by (intro map_of_spread_other) simp
  have "immutable_fields (spread d (bson ?props)) = immutable_fields d"
    by (simp add: immutable_fields_def js_get_spread_other)
  with d d' same
  show "\<exists>d d'. findOne [(''_id'', new_ObjectID (Str id'))] coll = Some d
             \<and> findOne [(''_id'', new_ObjectID (Str id'))] coll' = Some d'
             \<and> immutable_fields d' = immutable_fields d
             \<and> (\<forall>k. k \<notin> set [''updatedDate'', ''updatorId'', ''ownerId'', ''sessionId'']
                    \<longrightarrow> map_of d' k = map_of d k)"
    by blast
  show "map immutable_fields coll' = map immutable_fields coll"
    unfolding coll' by (rule updateOne_immutable) simp_all
next
  show "map immutable_fields (snd (put_device cr id' payload updatedDate coll))
       = map immutable_fields coll"
    by (simp add: put_device_def set_map_def Let_def split: option.splits sum.splits)
qed

theorem update_keeps_immutable_fields_witness:
  "put_viewer ''tok'' u1 ''5f0000000000000000000001''
     [(''sessionId'', Str ''507f1f77bcf86cd799439012'')] 20 [viewer_of_u1]
   = (Body updated_viewer_of_u1, [updated_viewer_of_u1],
      [\<lparr>event = ''viewer updated'', token = ''tok'', viewerId = Undefined,
        viewer = updated_viewer_of_u1\<rparr>])
   \<and> findOne [(''_id'', new_ObjectID (Str ''5f0000000000000000000001''))] [viewer_of_u1]
       = Some viewer_of_u1
   \<and> findOne [(''_id'', new_ObjectID (Str ''5f0000000000000000000001''))]
         [updated_viewer_of_u1]
       = Some updated_viewer_of_u1
   \<and> immutable_fields updated_viewer_of_u1 = immutable_fields viewer_of_u1
   \<and> map immutable_fields [updated_viewer_of_u1]
       = [(ObjId ''5f0000000000000000000001'', DateV 10, Str ''u1'')]"
proof -
  have run: "put_viewer ''tok'' u1 ''5f0000000000000000000001''
     [(''sessionId'', Str ''507f1f77bcf86cd799439012'')] 20 [viewer_of_u1]
   = (Body updated_viewer_of_u1, [updated_viewer_of_u1],
      [\<lparr>event = ''viewer updated'', token = ''tok'', viewerId = Undefined,
        viewer = updated_viewer_of_u1\<rparr>])"
    by (simp add: put_viewer_def eval_defs)
  have before: "map immutable_fields [viewer_of_u1]
                  = [(ObjId ''5f0000000000000000000001'', DateV 10, Str ''u1'')]"
    by (simp add: immutable_fields_def viewer_of_u1_def js_get_def)
  from run before
    update_keeps_immutable_fields [of "''tok''" u1 "''5f0000000000000000000001''"
      "[(''sessionId'', Str ''507f1f77bcf86cd799439012'')]" 20 "[viewer_of_u1]"
      updated_viewer_of_u1 "[updated_viewer_of_u1]"
      "[\<lparr>event = ''viewer updated'', token = ''tok'', viewerId = Undefined,
         viewer = updated_viewer_of_u1\<rparr>]"]
  show ?thesis
    by (simp add: findOne_def matches_def field_matches_def viewer_of_u1_def
          updated_viewer_of_u1_def immutable_fields_def js_get_def decoded_viewer_id)
qed

section \<open>The invariant of the viewers collection\<close>

lemma map_of_bson:
  "map_of (bson d) k = map_option (\<lambda>v. if v = Undefined then Null else v) (map_of d k)"
  by (simp add: bson_def map_of_map)

lemma js_get_bson_defined: "js_get d k \<noteq> Undefined \<Longrightarrow> js_get (bson d) k = js_get d k"
  by (cases "map_of d k") (simp_all add: js_get_def map_of_bson)

lemma has_objectid_bson: "has_objectid d \<Longrightarrow> has_objectid (bson d)"
proof -
  assume h: "has_objectid d"
  then have "js_get d ''_id'' \<noteq> Undefined" by (auto simp: has_objectid_def)
  then have "js_get (bson d) ''_id'' = js_get d ''_id''" by (rule js_get_bson_defined)
  with h show ?thesis by (simp add: has_objectid_def)
qed

lemma viewer_doc_spread:
  assumes "viewer_doc d" and "fst ` set props \<subseteq> set viewer_keys" and "''_id'' \<notin> fst ` set props"
  shows "viewer_doc (spread d props)"
proof -
  from assms(1) have keys: "map fst d = viewer_keys" by (simp add: viewer_doc_def)
  then have "fst ` set d = set viewer_keys" by (metis list.set_map)
  with assms(2) have "map fst (spread d props) = map fst d" by (intro keys_spread) simp
  moreover have "js_get (spread d props) ''_id'' = js_get d ''_id''"
    using assms(3) by (rule js_get_spread_other)
  ultimately show ?thesis using assms(1) by (simp add: viewer_doc_def has_objectid_def)
qed

lemma viewers_ok_updateOne:
  assumes "viewers_ok coll" and "fst ` set props \<subseteq> set viewer_keys" and "''_id'' \<notin> fst ` set props"
  shows "viewers_ok (updateOne s props coll)"
proof -
  have bs: "fst ` set (bson props) \<subseteq> set viewer_keys" "''_id'' \<notin> fst ` set (bson props)"
    using assms(2,3) by simp_all
  have "list_all viewer_doc (updateOne s props coll)" if "list_all viewer_doc coll"
    using that
  proof (induction coll)
    case Nil
    then show ?case by simp
  next
    case (Cons x coll)
    then show ?case using viewer_doc_spread[OF _ bs, of x] by simp
  qed
  moreover have "map (\<lambda>d. js_get d ''_id'') (updateOne s props coll) = map (\<lambda>d. js_get d ''_id'') coll"
    using assms(3) by (rule updateOne_keeps_field)
  ultimately show ?thesis using assms(1) by (simp add: viewers_ok_def)
qed

lemma set_deleteOne: "set (deleteOne s coll) \<subseteq> set coll"
  by (induction coll) auto

lemma distinct_deleteOne: "distinct (map f coll) \<Longrightarrow> distinct (map f (deleteOne s coll))"
proof (induction coll)
  case Nil
  then show ?case by simp
next
  case (Cons x coll)
  then show ?case using set_deleteOne[of s coll] by auto
qed

lemma viewers_ok_deleteOne: "viewers_ok coll \<Longrightarrow> viewers_ok (deleteOne s coll)"
  using set_deleteOne[of s coll]
  by (auto simp: viewers_ok_def list_all_iff distinct_deleteOne)

lemma viewers_ok_insertOne:
  assumes "viewers_ok coll" and "viewer_doc d" and "insertOne d coll = Inr coll'"
  shows "viewers_ok coll'"
proof -
  from assms(3) have coll': "coll' = coll @ [bson d]"
    and fresh: "\<not> list_ex (\<lambda>x. js_get x ''_id'' = js_get d ''_id'') coll"
    by (auto simp: insertOne_def split: if_splits)
  from assms(2) have vd: "viewer_doc (bson d)"
    by (simp add: viewer_doc_def has_objectid_bson)
  from assms(2) have "js_get d ''_id'' \<noteq> Undefined"
    by (auto simp: viewer_doc_def has_objectid_def)
  then have "js_get (bson d) ''_id'' = js_get d ''_id''" by (rule js_get_bson_defined)
  with fresh have "js_get (bson d) ''_id'' \<notin> set (map (\<lambda>x. js_get x ''_id'') coll)"
    by (auto simp: list_ex_iff)
  with assms(1) vd show ?thesis by (simp add: coll' viewers_ok_def)
qed

lemma post_viewers_ok:
  assumes "viewers_ok coll"
    and "post_viewers tok cr payload id' createdDate updatedDate coll = (r, coll', evs)"
  shows "viewers_ok coll'"
proof (cases "coll' = coll")
  case True
  with assms(1) show ?thesis by simp
next
  case False
  with assms(2) obtain ownerId where
    "insertOne [(''_id'', ObjId id'), (''createdDate'', DateV createdDate),
                (''updatedDate'', DateV updatedDate), (''creatorId'', Str (user cr)),
                (''updatorId'', Str (user cr)), (''ownerId'', ownerId),
                (''sessionId'', js_get payload ''sessionId'')] coll = Inr coll'"
    by (auto simp: post_viewers_def Let_def split: sum.splits bool.splits if_splits)
  moreover have "viewer_doc [(''_id'', ObjId id'), (''createdDate'', DateV createdDate),
                (''updatedDate'', DateV updatedDate), (''creatorId'', Str (user cr)),
                (''updatorId'', Str (user cr)), (''ownerId'', ownerId),
                (''sessionId'', js_get payload ''sessionId'')]"
    by (simp add: viewer_doc_def viewer_keys_def has_objectid_def js_get_def)
  ultimately show ?thesis using assms(1) viewers_ok_insertOne by blast
qed

lemma put_viewer_ok:
  assumes "viewers_ok coll"
    and "put_viewer tok cr id' payload updatedDate coll = (r, coll', evs)"
  shows "viewers_ok coll'"
proof (cases "coll' = coll")
  case True
  with assms(1) show ?thesis by simp
next
  case False
  with assms(2) obtain ownerId where
    "coll' = updateOne [(''_id'', new_ObjectID (Str id'))]
               [(''updatedDate'', DateV updatedDate), (''updatorId'', Str (user cr)),
                (''ownerId'', ownerId), (''sessionId'', js_get payload ''sessionId'')] coll"
    by (auto simp: put_viewer_def Let_def split: option.splits sum.splits bool.splits if_splits)
  then show ?thesis
    using assms(1) by (simp add: viewers_ok_updateOne viewer_keys_def)
qed

lemma delete_viewer_ok:
  assumes "viewers_ok coll" and "delete_viewer tok id' coll = (r, coll', evs)"
  shows "viewers_ok coll'"
  using assms
  by (auto simp: delete_viewer_def Let_def viewers_ok_deleteOne split: option.splits sum.splits)

lemma reachable_ok: "viewers_reachable coll \<Longrightarrow> viewers_ok coll"
proof (induction rule: viewers_reachable.induct)
  case initially
  show ?case by (simp add: viewers_ok_def)
next
  case (after_post coll tok cr payload id' createdDate updatedDate r coll' evs)
  then show ?case using post_viewers_ok by blast
next
  case (after_put coll tok cr id' payload updatedDate r coll' evs)
  then show ?case using put_viewer_ok by blast
next
  case (after_delete coll tok id' r coll' evs)
  then show ?case using delete_viewer_ok by blast
qed

section \<open>Listing viewers by session\<close>

lemma matches_append: "matches (a @ b) d = (matches a d \<and> matches b d)"
  by (simp add: matches_def)

lemma no_sessions_no_match:
  "map_of d ''sessions'' = None \<Longrightarrow> \<not> matches [(''sessions'', v)] d"
  by (simp add: matches_def field_matches_def)

lemma viewer_doc_absent:
  assumes "viewer_doc d" and "k \<notin> set viewer_keys"
  shows "map_of d k = None"
proof -
  from assms(1) have "map fst d = viewer_keys" by (simp add: viewer_doc_def)
  then have "set (map fst d) = set viewer_keys" by simp
  with assms(2) have "k \<notin> fst ` set d" by simp
  then show ?thesis by (simp add: map_of_eq_None_iff)
qed

lemma viewer_doc_no_sessions: "viewer_doc d \<Longrightarrow> map_of d ''sessions'' = None"
  by (rule viewer_doc_absent) (simp_all add: viewer_keys_def)

lemma viewer_doc_no_id: "viewer_doc d \<Longrightarrow> map_of d ''id'' = None"
  by (rule viewer_doc_absent) (simp_all add: viewer_keys_def)

lemma session_search_empty:
  assumes "viewers_ok coll" and "truthy (query_sessionId q)"
  shows "cursor_all (list_search q) coll = []"
proof -
  have "\<not> matches (list_search q) d" if "d \<in> set coll" for d
  proof -
    from that assms(1) have "viewer_doc d" by (simp add: viewers_ok_def list_all_iff)
    then have "\<not> matches [(''sessions'', new_ObjectID (query_sessionId q))] d"
      by (intro no_sessions_no_match viewer_doc_no_sessions)
    with assms(2) show ?thesis by (simp add: list_search_def matches_append)
  qed
  then show ?thesis by (simp add: cursor_all_def)
qed


text \<open>
  C8.  In every state of the \<open>viewers\<close> collection that the service can reach,
  \<open>GET /viewers\<close> with a \<open>sessionId\<close> answers with an empty page, count 0 and
  total 0: the filter is on the property \<open>sessions\<close>, which no stored viewer has.
\<close>

theorem session_filter_matches_nothing:
  assumes "viewers_reachable coll" and "truthy (query_sessionId q)"
  shows "get_viewers q coll =
           Page \<lparr>skip = skip q, limit = limit q, count = 0, total_matched = 0\<rparr> []"
proof -
  from assms(1) have "viewers_ok coll" by (rule reachable_ok)
  then have "cursor_all (list_search q) coll = []"
    using assms(2) by (rule session_search_empty)
  then show ?thesis
    by (simp add: get_viewers_def list_handler_def cursor_window_def Let_def)
qed

lemma reachable_viewer_of_u1: "viewers_reachable [viewer_of_u1]"
proof -
  have "post_viewers ''tok'' u1 [(''sessionId'', Str ''507f1f77bcf86cd799439011'')]
          ''5f0000000000000000000001'' 10 10 []
        = (Body (js_delete ''_id'' (js_set ''id'' (Str ''5f0000000000000000000001'') viewer_of_u1)),
           [viewer_of_u1],
           [\<lparr>event = ''viewer created'', token = ''tok'',
             viewerId = Str ''5f0000000000000000000001'',
             viewer = js_delete ''_id'' (js_set ''id'' (Str ''5f0000000000000000000001'') viewer_of_u1)\<rparr>])"
    by (simp add: post_viewers_def u1_def js_get_def insertOne_def bson_def viewer_of_u1_def
          js_set_def js_delete_def Let_def)
  with viewers_reachable.initially show ?thesis by (rule viewers_reachable.after_post)
qed

theorem session_filter_matches_nothing_witness:
  "viewers_reachable [viewer_of_u1]
   \<and> js_get viewer_of_u1 ''sessionId'' = Str ''507f1f77bcf86cd799439011''
   \<and> truthy (Str ''507f1f77bcf86cd799439011'')
   \<and> get_viewers \<lparr>skip = 0, limit = 25, query_ownerId = Undefined,
                    query_sessionId = Str ''507f1f77bcf86cd799439011''\<rparr> [viewer_of_u1]
       = Page \<lparr>skip = 0, limit = 25, count = 0, total_matched = 0\<rparr> []"
  using reachable_viewer_of_u1
    session_filter_matches_nothing [OF reachable_viewer_of_u1,
      of "\<lparr>skip = 0, limit = 25, query_ownerId = Undefined,
           query_sessionId = Str ''507f1f77bcf86cd799439011''\<rparr>"]
  by (simp add: viewer_of_u1_def js_get_def)

section \<open>Pages of a listing\<close>

lemma expose_ids_ok:
  "list_all has_objectid xs \<Longrightarrow> \<exists>ys. expose_ids xs = Inr ys \<and> length ys = length xs"
proof (induction xs)
  case Nil
  then show ?case by simp
next
  case (Cons x xs)
  then obtain ys where ys: "expose_ids xs = Inr ys" "length ys = length xs" by auto
  from Cons.prems have "has_objectid x" by simp
  then obtain y where "expose_id x = Inr y"
    by (auto simp: has_objectid_def expose_id_def split: jsval.splits)
  with ys show ?case by simp
qed

lemma cursor_window_subset: "set (cursor_window s k l coll) \<subseteq> set coll"
proof -
  let ?rest = "drop k (cursor_all s coll)"
  have a: "set ?rest \<subseteq> set coll"
    using set_drop_subset[of k "cursor_all s coll"] by (auto simp: cursor_all_def)
  have b: "set (take l ?rest) \<subseteq> set ?rest"
    by (rule set_take_subset)
  from a b show ?thesis
    by (auto simp: cursor_window_def Let_def)
qed

lemma list_handler_page:
  assumes "list_all has_objectid coll"
  shows "\<exists>results. list_handler q coll =
           Page \<lparr>skip = skip q, limit = limit q,
                 count = length (cursor_window (list_search q) (skip q) (limit q) coll),
                 total_matched = length (cursor_all (list_search q) coll)\<rparr> results
         \<and> length results = length (cursor_window (list_search q) (skip q) (limit q) coll)"
proof -
  let ?found = "cursor_window (list_search q) (skip q) (limit q) coll"
  have "set ?found \<subseteq> set coll"
    by (rule cursor_window_subset)
  with assms have "list_all has_objectid ?found" by (auto simp: list_all_iff)
  then obtain ys where "expose_ids ?found = Inr ys" "length ys = length ?found"
    using expose_ids_ok by blast
  then show ?thesis by (simp add: list_handler_def Let_def)
qed

text \<open>
  C9.  On a collection of documents with \<open>ObjectID\<close>s of which the search matches
  30, a listing with limit 25 answers, for skip 0, with 25 results, count 25 and
  total 30, and for skip 25, with 5 results, count 5 and total 30; for devices
  and for viewers alike.
\<close>

theorem list_pagination:
  assumes "list_all has_objectid coll"
    and "length (cursor_all (list_search q) coll) = 30"
    and "limit q = 25"
  shows "(skip q = 0 \<longrightarrow>
            (\<exists>results.
               get_devices q coll =
                 Page \<lparr>skip = 0, limit = 25, count = 25, total_matched = 30\<rparr> results
               \<and> get_viewers q coll =
                 Page \<lparr>skip = 0, limit = 25, count = 25, total_matched = 30\<rparr> results
               \<and> length results = 25))
       \<and> (skip q = 25 \<longrightarrow>
            (\<exists>results.
               get_devices q coll =
                 Page \<lparr>skip = 25, limit = 25, count = 5, total_matched = 30\<rparr> results
               \<and> get_viewers q coll =
                 Page \<lparr>skip = 25, limit = 25, count = 5, total_matched = 30\<rparr> results
               \<and> length results = 5))"
proof -
  from list_handler_page[OF assms(1), of q] obtain results where
    page: "list_handler q coll =
           Page \<lparr>skip = skip q, limit = limit q,
                 count = length (cursor_window (list_search q) (skip q) (limit q) coll),
                 total_matched = length (cursor_all (list_search q) coll)\<rparr> results"
    and len: "length results = length (cursor_window (list_search q) (skip q) (limit q) coll)"
    by blast
  have w: "length (cursor_window (list_search q) (skip q) 25 coll) = min 25 (30 - skip q)"
    using assms(2) by (simp add: cursor_window_def Let_def)
  from page len w assms(2,3) show ?thesis
    by (auto simp: get_devices_def get_viewers_def)
qed

theorem list_pagination_witness:
  "list_all has_objectid thirty_viewers
   \<and> length (cursor_all
        (list_search \<lparr>skip = 0, limit = 25, query_ownerId = Str ''u1'',
                       query_sessionId = Undefined\<rparr>) thirty_viewers) = 30
   \<and> (\<exists>results.
         get_viewers \<lparr>skip = 0, limit = 25, query_ownerId = Str ''u1'',
                       query_sessionId = Undefined\<rparr> thirty_viewers =
           Page \<lparr>skip = 0, limit = 25, count = 25, total_matched = 30\<rparr> results
         \<and> length results = 25)
   \<and> (\<exists>results.
         get_viewers \<lparr>skip = 25, limit = 25, query_ownerId = Str ''u1'',
                       query_sessionId = Undefined\<rparr> thirty_viewers =
           Page \<lparr>skip = 25, limit = 25, count = 5, total_matched = 30\<rparr> results
         \<and> length results = 5)"
proof -
  have ok: "list_all has_objectid thirty_viewers"
    by code_simp
  have n0: "length (cursor_all
        (list_search \<lparr>skip = 0, limit = 25, query_ownerId = Str ''u1'',
                       query_sessionId = Undefined\<rparr>) thirty_viewers) = 30"
    by code_simp
  have n25: "length (cursor_all
        (list_search \<lparr>skip = 25, limit = 25, query_ownerId = Str ''u1'',
                       query_sessionId = Undefined\<rparr>) thirty_viewers) = 30"
    by code_simp
  from list_pagination [OF ok n0] list_pagination [OF ok n25] ok n0
  show ?thesis by (simp del: ex_simps) blast
qed

section \<open>The id in the bodies of the viewer service\<close>

lemma found_in_collection:
  "findOne s coll = Some d \<Longrightarrow> d \<in> set coll \<and> matches s d"
  by (auto simp: findOne_def find_Some_iff)

lemma found_viewer:
  assumes "viewers_ok coll" and "findOne [(''_id'', ObjId i)] coll = Some d"
  shows "viewer_doc d \<and> map_of d ''_id'' = Some (ObjId i)"
proof -
  from assms(2) have d: "d \<in> set coll" and m: "matches [(''_id'', ObjId i)] d"
    by (simp_all add: found_in_collection)
  from d assms(1) have vd: "viewer_doc d" by (simp add: viewers_ok_def list_all_iff)
  then obtain h where h: "js_get d ''_id'' = ObjId h"
    by (auto simp: viewer_doc_def has_objectid_def split: jsval.splits)
  with m have "map_of d ''_id'' = Some (ObjId i)"
    by (auto simp: matches_def field_matches_def js_get_def split: option.splits jsval.splits)
  with vd show ?thesis by simp
qed

lemma expose_found_viewer:
  assumes "viewers_ok coll" and "findOne [(''_id'', ObjId i)] coll = Some d"
  shows "expose_id d = Inr (js_delete ''_id'' (js_set ''id'' (Str i) d))"
  using found_viewer[OF assms] by (simp add: expose_id_def js_get_def)

lemma exposed_keys:
  "map_of (js_delete ''_id'' (js_set ''id'' (Str i) d)) ''_id'' = None
   \<and> map_of (js_delete ''_id'' (js_set ''id'' (Str i) d)) ''id'' = Some (Str i)"
  by (simp add: js_delete_def js_set_def delete_conv' update_conv')

lemma put_viewer_body_keys:
  assumes "viewers_ok coll"
    and "put_viewer tok cr id' payload updatedDate coll = (Body b, coll', evs)"
  shows "map_of b ''_id'' = Some (new_ObjectID (Str id')) \<and> map_of b ''id'' = None"
proof -
  from assms(2) obtain d ownerId where
    d: "findOne [(''_id'', new_ObjectID (Str id'))] coll = Some d" and
    b: "b = spread d
             [(''updatedDate'', DateV updatedDate), (''updatorId'', Str (user cr)),
              (''ownerId'', ownerId), (''sessionId'', js_get payload ''sessionId'')]"
    by (rule put_viewer_accepted)
  from found_viewer[OF assms(1) d[unfolded new_ObjectID_Str]]
  have "map_of d ''_id'' = Some (new_ObjectID (Str id'))" and "map_of d ''id'' = None"
    by (simp_all add: viewer_doc_no_id new_ObjectID_Str)
  then show ?thesis
    unfolding b by (simp add: map_of_spread_other)
qed

text \<open>
  C10.  In every reachable state of the \<open>viewers\<close> collection, the body of an
  accepted \<open>PUT /viewers/{id}\<close> has the \<open>ObjectID\<close> under \<open>_id\<close> and no \<open>id\<close>,
  while the bodies of \<open>GET /viewers/{id}\<close>, \<open>POST /viewers\<close> and
  \<open>DELETE /viewers/{id}\<close> have no \<open>_id\<close> and the id as a string under \<open>id\<close>:
  the lower-case string of the \<open>ObjectID\<close>, however the request spells it.
\<close>

theorem viewer_update_keeps_internal_id:
  assumes "viewers_reachable coll"
  shows "(put_viewer tok cr id' payload updatedDate coll = (Body b, coll', evs) \<longrightarrow>
            map_of b ''_id'' = Some (ObjId (map hex_lower id')) \<and> map_of b ''id'' = None)
       \<and> (get_viewer id' coll = Body b1 \<longrightarrow>
            map_of b1 ''_id'' = None \<and> map_of b1 ''id'' = Some (Str (map hex_lower id')))
       \<and> (post_viewers tok cr payload newId createdDate updatedDate' coll
              = (Body b2, coll2, evs2) \<longrightarrow>
            map_of b2 ''_id'' = None \<and> map_of b2 ''id'' = Some (Str newId))
       \<and> (delete_viewer tok id' coll = (Body b3, coll3, evs3) \<longrightarrow>
            map_of b3 ''_id'' = None \<and> map_of b3 ''id'' = Some (Str (map hex_lower id')))"
proof (intro conjI impI)
  from assms have ok: "viewers_ok coll" by (rule reachable_ok)
  {
    assume "put_viewer tok cr id' payload updatedDate coll = (Body b, coll', evs)"
    from put_viewer_body_keys[OF ok this]
    show "map_of b ''_id'' = Some (ObjId (map hex_lower id'))" and "map_of b ''id'' = None"
      by (simp_all add: new_ObjectID_Str)
  }
  {
    assume "get_viewer id' coll = Body b1"
    then obtain d where d: "findOne [(''_id'', ObjId (map hex_lower id'))] coll = Some d"
      and "expose_id d = Inr b1"
      by (auto simp: get_viewer_def new_ObjectID_Str split: option.splits sum.splits)
    with expose_found_viewer[OF ok d]
    have "b1 = js_delete ''_id'' (js_set ''id'' (Str (map hex_lower id')) d)"
      by simp
    then show "map_of b1 ''_id'' = None" and "map_of b1 ''id'' = Some (Str (map hex_lower id'))"
      by (simp_all add: exposed_keys)
  }
  {
    assume "post_viewers tok cr payload newId createdDate updatedDate' coll
              = (Body b2, coll2, evs2)"
    then obtain d where "b2 = js_delete ''_id'' (js_set ''id'' (Str newId) d)"
      by (auto simp: post_viewers_def Let_def split: sum.splits bool.splits if_splits)
    then show "map_of b2 ''_id'' = None" and "map_of b2 ''id'' = Some (Str newId)"
      by (simp_all add: exposed_keys)
  }
  {
    assume "delete_viewer tok id' coll = (Body b3, coll3, evs3)"
    then obtain d where d: "findOne [(''_id'', ObjId (map hex_lower id'))] coll = Some d"
      and "expose_id d = Inr b3"
      by (auto simp: delete_viewer_def Let_def new_ObjectID_Str split: option.splits sum.splits)
    with expose_found_viewer[OF ok d]
    have "b3 = js_delete ''_id'' (js_set ''id'' (Str (map hex_lower id')) d)"
      by simp
    then show "map_of b3 ''_id'' = None" and "map_of b3 ''id'' = Some (Str (map hex_lower id'))"
      by (simp_all add: exposed_keys)
  }
qed

lemma upper_spelling:
  "map hex_lower ''5F0000000000000000000001'' = ''5f0000000000000000000001''"
  by (simp add: hex_lower_def)

theorem viewer_update_keeps_internal_id_witness:
  "viewers_reachable [viewer_of_u1]
   \<and> put_viewer ''tok'' u1 ''5F0000000000000000000001''
        [(''sessionId'', Str ''507f1f77bcf86cd799439012'')] 20 [viewer_of_u1]
      = (Body updated_viewer_of_u1, [updated_viewer_of_u1],
         [\<lparr>event = ''viewer updated'', token = ''tok'', viewerId = Undefined,
           viewer = updated_viewer_of_u1\<rparr>])
   \<and> map_of updated_viewer_of_u1 ''_id'' = Some (ObjId ''5f0000000000000000000001'')
   \<and> map_of updated_viewer_of_u1 ''id'' = None
   \<and> get_viewer ''5F0000000000000000000001'' [viewer_of_u1] = Body exposed_viewer_of_u1
   \<and> map_of exposed_viewer_of_u1 ''_id'' = None
   \<and> map_of exposed_viewer_of_u1 ''id'' = Some (Str ''5f0000000000000000000001'')
   \<and> post_viewers ''tok'' u1 [(''sessionId'', Str ''507f1f77bcf86cd799439012'')]
        ''5f0000000000000000000002'' 30 30 [viewer_of_u1]
      = (Body created_viewer_of_u1,
         [viewer_of_u1,
          [(''_id'', ObjId ''5f0000000000000000000002''),
           (''createdDate'', DateV 30),
           (''updatedDate'', DateV 30),
           (''creatorId'', Str ''u1''),
           (''updatorId'', Str ''u1''),
           (''ownerId'', Str ''u1''),
           (''sessionId'', Str ''507f1f77bcf86cd799439012'')]],
         [\<lparr>event = ''viewer created'', token = ''tok'',
           viewerId = Str ''5f0000000000000000000002'', viewer = created_viewer_of_u1\<rparr>])
   \<and> map_of created_viewer_of_u1 ''_id'' = None
   \<and> map_of created_viewer_of_u1 ''id'' = Some (Str ''5f0000000000000000000002'')
   \<and> delete_viewer ''tok'' ''5F0000000000000000000001'' [viewer_of_u1]
      = (Body exposed_viewer_of_u1, [],
         [\<lparr>event = ''viewer deleted'', token = ''tok'',
           viewerId = Str ''5f0000000000000000000001'', viewer = exposed_viewer_of_u1\<rparr>])"
proof -
  have put: "put_viewer ''tok'' u1 ''5F0000000000000000000001''
        [(''sessionId'', Str ''507f1f77bcf86cd799439012'')] 20 [viewer_of_u1]
      = (Body updated_viewer_of_u1, [updated_viewer_of_u1],
         [\<lparr>event = ''viewer updated'', token = ''tok'', viewerId = Undefined,
           viewer = updated_viewer_of_u1\<rparr>])"
    by (simp add: put_viewer_def eval_defs)
  have get: "get_viewer ''5F0000000000000000000001'' [viewer_of_u1] = Body exposed_viewer_of_u1"
    by (simp add: get_viewer_def eval_defs)
  have post: "post_viewers ''tok'' u1 [(''sessionId'', Str ''507f1f77bcf86cd799439012'')]
        ''5f0000000000000000000002'' 30 30 [viewer_of_u1]
      = (Body created_viewer_of_u1,
         [viewer_of_u1,
          [(''_id'', ObjId ''5f0000000000000000000002''),
           (''createdDate'', DateV 30),
           (''updatedDate'', DateV 30),
           (''creatorId'', Str ''u1''),
           (''updatorId'', Str ''u1''),
           (''ownerId'', Str ''u1''),
           (''sessionId'', Str ''507f1f77bcf86cd799439012'')]],
         [\<lparr>event = ''viewer created'', token = ''tok'',
           viewerId = Str ''5f0000000000000000000002'', viewer = created_viewer_of_u1\<rparr>])"
    by (simp add: post_viewers_def eval_defs)
  have del: "delete_viewer ''tok'' ''5F0000000000000000000001'' [viewer_of_u1]
      = (Body exposed_viewer_of_u1, [],
         [\<lparr>event = ''viewer deleted'', token = ''tok'',
           viewerId = Str ''5f0000000000000000000001'', viewer = exposed_viewer_of_u1\<rparr>])"
    by (simp add: delete_viewer_def eval_defs)
  note ids = viewer_update_keeps_internal_id [OF reachable_viewer_of_u1,
      where tok = "''tok''" and cr = u1 and id' = "''5F0000000000000000000001''"
        and payload = "[(''sessionId'', Str ''507f1f77bcf86cd799439012'')]"
        and updatedDate = 20 and newId = "''5f0000000000000000000002''"
        and createdDate = 30 and updatedDate' = 30,
      unfolded put get post del upper_spelling]
  from ids reachable_viewer_of_u1 put get post del show ?thesis
    by blast
qed

section \<open>The two ownership checks\<close>

text \<open>
  The two checks of the viewer handlers, by kind of caller.  For a caller that
  is not a machine the first check holds without a look at the scopes, and the
  handler goes to \<open>h.response(Boom.unauthorized(..))\<close>; for a machine the first
  check goes on to \<open>scopes.contains\<close>.  A machine that names itself passes the
  first check where the owner does not change, and the handler goes to
  \<open>h.response(Boom.badRequest(..))\<close>.  All three raise.
\<close>

lemma strict_eq_string: "v \<noteq> Str a \<Longrightarrow> \<not> strict_eq (Str a) v"
  by (cases v) auto

lemma human_other_owner_raises:
  assumes "\<not> isMachine cr" and "js_get payload ''ownerId'' = Str owner" and "owner \<noteq> []"
  shows "(owner \<noteq> user cr \<longrightarrow>
            post_viewers tok cr payload newId createdDate updatedDate coll =
              (Thrown (AssertError ''Cannot wrap an error''), coll, []))
       \<and> (\<forall>viewer0.
            findOne [(''_id'', new_ObjectID (Str id'))] coll = Some viewer0
            \<and> js_get viewer0 ''ownerId'' \<noteq> Str owner \<longrightarrow>
            put_viewer tok cr id' payload updatedDate' coll =
              (Thrown (AssertError ''Cannot wrap an error''), coll, []))"
  using assms strict_eq_string[of _ owner]
  by (auto simp: post_viewers_def put_viewer_def Let_def)

lemma machine_other_owner_raises:
  assumes "isMachine cr" and "js_get payload ''ownerId'' = Str owner" and "owner \<noteq> []"
  shows "(owner \<noteq> user cr \<longrightarrow>
            post_viewers tok cr payload newId createdDate updatedDate coll =
              (Thrown (TypeError ''request.auth.credentials.scopes.contains is not a function''),
               coll, []))
       \<and> (\<forall>viewer0.
            findOne [(''_id'', new_ObjectID (Str id'))] coll = Some viewer0
            \<and> js_get viewer0 ''ownerId'' \<noteq> Str owner \<longrightarrow>
            put_viewer tok cr id' payload updatedDate' coll =
              (Thrown (TypeError ''request.auth.credentials.scopes.contains is not a function''),
               coll, []))"
  using assms strict_eq_string[of _ owner]
  by (auto simp: post_viewers_def put_viewer_def Let_def scopes_contains_def)

lemma machine_self_owner_raises:
  assumes "isMachine cr" and "js_get payload ''ownerId'' = Str (user cr)" and "user cr \<noteq> []"
  shows "post_viewers tok cr payload newId createdDate updatedDate coll =
           (Thrown (AssertError ''Cannot wrap an error''), coll, [])
       \<and> (\<forall>viewer0.
            findOne [(''_id'', new_ObjectID (Str id'))] coll = Some viewer0
            \<and> js_get viewer0 ''ownerId'' = Str (user cr) \<longrightarrow>
            put_viewer tok cr id' payload updatedDate' coll =
              (Thrown (AssertError ''Cannot wrap an error''), coll, []))"
  using assms by (auto simp: post_viewers_def put_viewer_def Let_def)

text \<open>
  C1.  The machine \<open>m1\<close>, which holds no scope, asks \<open>POST /viewers\<close> for a
  viewer owned by \<open>u2\<close>.  The handler raises the \<open>TypeError\<close> of
  \<open>scopes.contains\<close>; it does not answer \<open>Unauthorized\<close>.  Nothing is stored.
\<close>

theorem post_viewers_machine_other_owner_raises:
  "viewer_payload_ok
     [(''ownerId'', Str ''u2''), (''sessionId'', Str ''507f1f77bcf86cd799439011'')]
   \<and> post_viewers ''tok'' m1
        [(''ownerId'', Str ''u2''), (''sessionId'', Str ''507f1f77bcf86cd799439011'')]
        ''5f0000000000000000000002'' 30 30 [viewer_of_u1]
      = (Thrown (TypeError ''request.auth.credentials.scopes.contains is not a function''),
         [viewer_of_u1], [])"
  by (simp add: post_viewers_def viewer_payload_ok_def is_objectId_def is_hex_def eval_defs)

text \<open>
  C2.  The machine \<open>m1\<close> asks \<open>POST /viewers\<close> for a viewer owned by itself.
  The handler reaches \<open>return h.response(Boom.badRequest(..))\<close>, where
  \<open>h.response\<close> raises: it does not answer \<open>BadRequest\<close>.  Nothing is stored.
\<close>

theorem post_viewers_machine_self_owner_raises:
  "isMachine m1
   \<and> viewer_payload_ok [(''ownerId'', Str ''m1'')]
   \<and> js_get [(''ownerId'', Str ''m1'')] ''ownerId'' = Str (user m1)
   \<and> post_viewers ''tok'' m1 [(''ownerId'', Str ''m1'')] ''5f0000000000000000000004'' 30 30
        [viewer_of_u1]
      = (Thrown (AssertError ''Cannot wrap an error''), [viewer_of_u1], [])"
  by (simp add: post_viewers_def viewer_payload_ok_def eval_defs)

section \<open>Creating without an owner\<close>

lemma post_devices_always_raises:
  "post_devices cr payload id' createdDate updatedDate coll =
     (Thrown (ReferenceError ''creatorId is not defined''), coll)"
  by (simp add: post_devices_def undeclared_def)

lemma post_viewers_default_owner:
  assumes "js_get payload ''ownerId'' = Undefined"
    and "\<not> list_ex (\<lambda>x. js_get x ''_id'' = ObjId id') coll"
  shows "\<exists>b stored.
           post_viewers tok cr payload id' createdDate updatedDate coll =
             (Body b, coll @ [stored],
              [\<lparr>event = ''viewer created'', token = tok, viewerId = Str id', viewer = b\<rparr>])
           \<and> js_get b ''ownerId'' = Str (user cr)
           \<and> js_get b ''creatorId'' = Str (user cr)
           \<and> js_get b ''id'' = Str id'
           \<and> js_get stored ''ownerId'' = Str (user cr)
           \<and> js_get stored ''creatorId'' = Str (user cr)
           \<and> js_get stored ''_id'' = ObjId id'"
  using assms
  by (simp add: post_viewers_def Let_def insertOne_def js_get_def bson_def js_set_def
        js_delete_def)

text \<open>
  C3.  \<open>u1\<close> asks \<open>POST /devices\<close> for a device without naming an owner.  The
  handler raises the \<open>ReferenceError\<close> of \<open>creatorId\<close> and creates nothing.
\<close>

theorem post_devices_without_owner_raises:
  "device_payload_ok [(''name'', Str ''Unnamed Device'')]
   \<and> post_devices u1 [(''name'', Str ''Unnamed Device'')] ''5f00000000000000000000d2'' 30 30 []
      = (Thrown (ReferenceError ''creatorId is not defined''), [])"
  by (simp add: post_devices_def device_payload_ok_def eval_defs)

section \<open>Deleting\<close>

lemma delete_device_writes_nothing: "snd (delete_device id' coll) = coll"
  by (simp add: delete_device_def split: option.splits sum.splits)

lemma findOne_deleteOne:
  assumes "viewers_ok coll"
  shows "findOne [(''_id'', ObjId i)] (deleteOne [(''_id'', ObjId i)] coll) = None"
  using assms
proof (induction coll)
  case Nil
  show ?case by (simp add: findOne_def)
next
  case (Cons x coll)
  let ?s = "[(''_id'', ObjId i)]"
  from Cons.prems have ok: "viewers_ok coll"
    by (simp add: viewers_ok_def)
  show ?case
  proof (cases "matches ?s x")
    case True
    then have x: "js_get x ''_id'' = ObjId i"
      using Cons.prems
      by (auto simp: matches_def field_matches_def js_get_def viewers_ok_def viewer_doc_def
            has_objectid_def split: option.splits jsval.splits)
    have "\<not> matches ?s y" if "y \<in> set coll" for y
    proof
      assume "matches ?s y"
      moreover from that Cons.prems have "viewer_doc y"
        by (simp add: viewers_ok_def list_all_iff)
      ultimately have "js_get y ''_id'' = ObjId i"
        by (auto simp: matches_def field_matches_def js_get_def viewer_doc_def
              has_objectid_def split: option.splits jsval.splits)
      with x that Cons.prems show False
        by (force simp: viewers_ok_def)
    qed
    then have "findOne ?s coll = None"
      by (simp add: findOne_def find_None_iff)
    with True show ?thesis by simp
  next
    case False
    with Cons.IH[OF ok] show ?thesis by (simp add: findOne_def)
  qed
qed

text \<open>
  \<open>DELETE /viewers/{id}\<close> does remove the viewer it returns; the
  \<open>GET /viewers/{id}\<close> that follows finds nothing and goes to
  \<open>h.response(Boom.notFound(..))\<close>, which raises.
\<close>

lemma delete_viewer_then_get:
  assumes "viewers_ok coll" and "findOne [(''_id'', new_ObjectID (Str id'))] coll = Some d"
  shows "\<exists>coll'.
           delete_viewer tok id' coll =
             (Body (js_delete ''_id'' (js_set ''id'' (Str (map hex_lower id')) d)), coll',
              [\<lparr>event = ''viewer deleted'', token = tok, viewerId = Str (map hex_lower id'),
                viewer = js_delete ''_id'' (js_set ''id'' (Str (map hex_lower id')) d)\<rparr>])
           \<and> findOne [(''_id'', new_ObjectID (Str id'))] coll' = None
           \<and> get_viewer id' coll' = Thrown (AssertError ''Cannot wrap an error'')"
proof -
  let ?i = "map hex_lower id'"
  from assms(2) have d: "findOne [(''_id'', ObjId ?i)] coll = Some d"
    by (simp add: new_ObjectID_Str)
  have "js_get (js_delete ''_id'' (js_set ''id'' (Str ?i) d)) ''id'' = Str ?i"
    by (simp add: js_get_def exposed_keys)
  then show ?thesis
    using expose_found_viewer[OF assms(1) d] findOne_deleteOne[OF assms(1), of ?i] d
    by (simp add: delete_viewer_def get_viewer_def Let_def new_ObjectID_Str)
qed

text \<open>
  C4.  \<open>DELETE /devices/{id}\<close> on the one stored device returns the device and
  leaves it in the collection: \<open>GET /devices/{id}\<close> afterwards still answers
  with it.
\<close>

theorem delete_device_keeps_document:
  "is_objectId ''5f00000000000000000000d1''
   \<and> delete_device ''5f00000000000000000000d1'' [device_of_u1]
     = (Body exposed_device_of_u1, [device_of_u1])
   \<and> get_device ''5f00000000000000000000d1''
        (snd (delete_device ''5f00000000000000000000d1'' [device_of_u1]))
     = Body exposed_device_of_u1"
  by (simp add: delete_device_def get_device_def is_objectId_def is_hex_def eval_defs)

section \<open>The event of an update\<close>

lemma put_viewer_event:
  assumes "viewers_reachable coll"
    and "put_viewer tok cr id' payload updatedDate coll = (Body b, coll', evs)"
  shows "evs = [\<lparr>event = ''viewer updated'', token = tok, viewerId = Undefined, viewer = b\<rparr>]
         \<and> js_get b ''_id'' = ObjId (map hex_lower id')"
proof -
  from assms(2) have
    evs: "evs = [\<lparr>event = ''viewer updated'', token = tok, viewerId = js_get b ''id'',
                  viewer = b\<rparr>]"
    by (rule put_viewer_accepted)
  from assms(1) have "viewers_ok coll" by (rule reachable_ok)
  from put_viewer_body_keys[OF this assms(2)]
  have "map_of b ''_id'' = Some (ObjId (map hex_lower id'))" "map_of b ''id'' = None"
    by (simp_all add: new_ObjectID_Str)
  with evs show ?thesis by (simp add: js_get_def)
qed

text \<open>
  C7.  \<open>u1\<close> sets the session of its viewer.  The update is accepted and one
  \<open>viewer updated\<close> event is sent, with the token of the plugin and the
  updated viewer; its \<open>viewerId\<close> is \<open>undefined\<close>, not the id of the viewer,
  which the viewer carries under \<open>_id\<close>.
\<close>

theorem put_viewer_event_without_viewerId:
  "viewer_payload_ok [(''sessionId'', Str ''507f1f77bcf86cd799439012'')]
   \<and> put_viewer ''tok'' u1 ''5f0000000000000000000001''
     [(''sessionId'', Str ''507f1f77bcf86cd799439012'')] 20 [viewer_of_u1]
   = (Body updated_viewer_of_u1, [updated_viewer_of_u1],
      [\<lparr>event = ''viewer updated'', token = ''tok'', viewerId = Undefined,
        viewer = updated_viewer_of_u1\<rparr>])
   \<and> js_get updated_viewer_of_u1 ''_id'' = ObjId ''5f0000000000000000000001''"
  by (simp add: put_viewer_def viewer_payload_ok_def is_objectId_def is_hex_def eval_defs)

end
